theory Spec2Isabelle
  imports Complex_Main "HOL-Library.Word"
begin

unbundle bit_operations_syntax

section \<open>Data model of \<open>src/main.c\<close>\<close>

text \<open>
  \<open>IoModuleData\<close> is the record guarded by \<open>rtdb.lock\<close>. The two arrays are
  \<open>uint8_t[4]\<close>; they are lists here and \<open>wf_data\<close> states their length.
  \<open>an_raw\<close> is an \<open>int16_t\<close> and \<open>an_val\<close> an \<open>int\<close> (32 bits on the target);
  both are words that \<open>sint\<close> reads as two's complement.
\<close>

record IoModuleData =
  led_state :: "8 word list"
  button_state :: "8 word list"
  an_raw :: "16 word"
  an_val :: "32 word"

definition wf_data :: "IoModuleData \<Rightarrow> bool" where
  "wf_data d \<longleftrightarrow> length (led_state d) = 4 \<and> length (button_state d) = 4"

text \<open>The state that \<open>memset (&rtdb.data, 0, sizeof (rtdb.data))\<close> leaves behind.\<close>

definition rtdb_init :: IoModuleData where
  "rtdb_init = \<lparr>led_state = [0, 0, 0, 0], button_state = [0, 0, 0, 0], an_raw = 0, an_val = 0\<rparr>"

text \<open>
  \<open>SensorData\<close> is the payload of \<open>msgq_sensor_data\<close>. Its field \<open>temperature\<close> is a C
  \<open>float\<close>; the model holds the rational number that the float denotes.
\<close>

record SensorData =
  raw_value :: "16 word"
  temperature :: rat

section \<open>Single-precision arithmetic\<close>

text \<open>
  The arithmetic of \<open>data_processing_thread\<close> is done in \<open>float\<close>. The model is IEEE 754
  binary32 with round-to-nearest-even, every operation rounded on its own: \<open>f32 x\<close> is the
  binary32 number nearest to the rational \<open>x\<close>. Exponents below \<open>-126\<close> share the
  subnormal spacing; overflow to infinity is not modelled (the operands of this program,
  which start from a 16-bit sample, stay far below \<open>2 ^ 128\<close>).
\<close>

function bit_length :: "int \<Rightarrow> int" where
  "bit_length n = (if n \<le> 0 then 0 else 1 + bit_length (n div 2))"
  by pat_completeness auto
termination
  by (relation "measure nat") auto

declare bit_length.simps [simp del]

definition pow2 :: "int \<Rightarrow> rat" where
  "pow2 k = (if 0 \<le> k then 2 ^ nat k else 1 / 2 ^ nat (- k))"

text \<open>\<open>ilog2 x\<close> is the exponent \<open>e\<close> with \<open>2 ^ e \<le> x < 2 ^ (e + 1)\<close>, for \<open>0 < x\<close>.\<close>

definition ilog2 :: "rat \<Rightarrow> int" where
  "ilog2 x = (if 1 \<le> x then bit_length \<lfloor>x\<rfloor> - 1
              else (let y = 1 / x; n = bit_length \<lfloor>y\<rfloor> - 1
                    in if y = pow2 n then - n else - (n + 1)))"

definition round_half_even :: "rat \<Rightarrow> int" where
  "round_half_even r =
     (let f = \<lfloor>r\<rfloor>; d = r - of_int f
      in if d < 1 / 2 then f else if 1 / 2 < d then f + 1 else if even f then f else f + 1)"

definition f32 :: "rat \<Rightarrow> rat" where
  "f32 x = (if x = 0 then 0
            else (let e = max (ilog2 \<bar>x\<bar>) (- 126); q = pow2 (e - 23)
                  in of_int (round_half_even (x / q)) * q))"

text \<open>
  The cast \<open>(int) x\<close> of a float truncates towards zero. C leaves the cast undefined when
  the truncated value does not fit an \<open>int\<close>; \<open>word_of_int\<close> wraps there.
  The conversion of an integer to \<open>float\<close> rounds.
\<close>

definition trunc_zero :: "rat \<Rightarrow> int" where
  "trunc_zero x = (if 0 \<le> x then \<lfloor>x\<rfloor> else \<lceil>x\<rceil>)"

definition float_to_int :: "rat \<Rightarrow> 32 word" where
  "float_to_int x = word_of_int (trunc_zero x)"

definition int_to_float :: "int \<Rightarrow> rat" where
  "int_to_float i = f32 (of_int i)"

section \<open>The sensor pipeline\<close>

text \<open>
  A \<open>k_msgq\<close> of capacity 10 is a list, oldest message first. \<open>K_FOREVER\<close> makes both
  calls block; \<open>None\<close> is the blocked call.
\<close>

definition msgq_capacity :: nat where
  "msgq_capacity = 10"

definition k_msgq_put :: "'a list \<Rightarrow> 'a \<Rightarrow> 'a list option" where
  "k_msgq_put q x = (if length q < msgq_capacity then Some (q @ [x]) else None)"

definition k_msgq_get :: "'a list \<Rightarrow> ('a \<times> 'a list) option" where
  "k_msgq_get q = (case q of [] \<Rightarrow> None | x # rest \<Rightarrow> Some (x, rest))"

text \<open>
  The two assignments of \<open>data_processing_thread\<close> between its \<open>k_msgq_get\<close> and its
  \<open>k_msgq_put\<close>:
  \<^verbatim>\<open>float voltage = (raw_value / 1023.0f) * 3.0f;\<close>
  \<^verbatim>\<open>data.temperature = (int)(60000 * (voltage - 1));\<close>
  \<^verbatim>\<open>data.raw_value = raw_value;\<close>
\<close>

definition voltage :: "16 word \<Rightarrow> rat" where
  "voltage raw = f32 (f32 (int_to_float (sint raw) / 1023) * 3)"

definition process_sample :: "16 word \<Rightarrow> SensorData" where
  "process_sample raw =
     \<lparr>raw_value = raw,
      temperature = int_to_float (sint (float_to_int (f32 (60000 * f32 (voltage raw - 1)))))\<rparr>"

text \<open>
  One turn of the loop of \<open>data_processing_thread\<close>, on its local \<open>data\<close> and the two
  queues. The turn blocks on an empty input queue and on a full output queue.
\<close>

definition data_processing_thread ::
  "SensorData \<times> 16 word list \<times> SensorData list
    \<Rightarrow> (SensorData \<times> 16 word list \<times> SensorData list) option" where
  "data_processing_thread s =
     (case s of (data, adc_raw, sensor_data) \<Rightarrow>
        (case k_msgq_get adc_raw of
           None \<Rightarrow> None
         | Some (raw, adc_raw') \<Rightarrow>
             (case k_msgq_put sensor_data (process_sample raw) of
                None \<Rightarrow> None
              | Some sensor_data' \<Rightarrow> Some (process_sample raw, adc_raw', sensor_data'))))"

text \<open>
  The two stores of \<open>database_thread\<close>, in the order of the source. The second one
  converts the float back to \<open>int\<close>.
\<close>

definition store_raw :: "SensorData \<Rightarrow> IoModuleData \<Rightarrow> IoModuleData" where
  "store_raw data d = d\<lparr>an_raw := raw_value data\<rparr>"

definition store_val :: "SensorData \<Rightarrow> IoModuleData \<Rightarrow> IoModuleData" where
  "store_val data d = d\<lparr>an_val := float_to_int (temperature data)\<rparr>"

section \<open>Calls into the kernel and the drivers\<close>

text \<open>
  Every call that leaves the program is recorded, in program order, as an \<open>action\<close>.
  The devices and the statically allocated buffers are named by constructors.
\<close>

datatype device = Uart0 | Saadc

datatype buffer = Rx_buf | Tx_buf | Output

datatype pin = Led nat | Button nat

datatype thread = T_uart | T_led | T_button | T_sensor | T_process | T_database

datatype action =
    MutexInit
  | MutexLock
  | MutexUnlock
  | GpioPinConfigure pin
  | GpioPinSet pin "8 word"
  | GpioPinGet pin
  | DeviceIsReady device
  | Printk string
  | UartCallbackSet device
  | UartTx device string
  | UartRxEnable device buffer nat int
  | ThreadCreate thread int
  | Msleep nat

definition RECEIVE_BUFF_SIZE :: nat where
  "RECEIVE_BUFF_SIZE = 10"

definition RECEIVE_TIMEOUT :: int where
  "RECEIVE_TIMEOUT = 100"

definition SLEEP_TIME_MS :: nat where
  "SLEEP_TIME_MS = 1000"



section \<open>Formatting\<close>

text \<open>
  \<open>show_int\<close> is the conversion \<open>%d\<close>. \<open>snprintf n\<close> keeps at most \<open>n - 1\<close>
  characters, as \<open>snprintf (output, n, ...)\<close> does before the terminating NUL.
\<close>

definition digit_char :: "int \<Rightarrow> char" where
  "digit_char d = ''0123456789'' ! nat d"

function digits :: "int \<Rightarrow> string" where
  "digits n = (if n < 10 then [digit_char n] else digits (n div 10) @ [digit_char (n mod 10)])"
  by pat_completeness auto
termination
  by (relation "measure nat") auto

declare digits.simps [simp del]

definition show_int :: "int \<Rightarrow> string" where
  "show_int i = (if i < 0 then CHR ''-'' # digits (- i) else digits i)"

definition snprintf :: "nat \<Rightarrow> string \<Rightarrow> string" where
  "snprintf n s = take (n - 1) s"

definition CRLF :: string where
  "CRLF = [CHR 0x0D, CHR 0x0A]"

section \<open>The command dispatcher \<open>uart_callback\<close>\<close>

text \<open>
  The chain of comparisons on \<open>cmd\<close>: \<open>'1'\<close> is \<open>0x31\<close>, \<open>'4'\<close> is \<open>0x34\<close>,
  \<open>'5'\<close> is \<open>0x35\<close>, \<open>'8'\<close> is \<open>0x38\<close>, \<open>'9'\<close> is \<open>0x39\<close> and \<open>'0'\<close> is \<open>0x30\<close>.
  \<open>None\<close> is the final \<open>else\<close> with its \<open>continue\<close>.
\<close>

datatype command = Toggle_led nat | Read_button nat | Read_raw | Read_processed

definition decode :: "8 word \<Rightarrow> command option" where
  "decode cmd =
     (if 0x31 \<le> cmd \<and> cmd \<le> 0x34 then Some (Toggle_led (unat cmd - 0x31))
      else if 0x35 \<le> cmd \<and> cmd \<le> 0x38 then Some (Read_button (unat cmd - 0x35))
      else if cmd = 0x39 then Some Read_raw
      else if cmd = 0x30 then Some Read_processed
      else None)"

text \<open>
  What each branch does between \<open>k_mutex_lock\<close> and \<open>k_mutex_unlock\<close>: the record
  afterwards and the \<open>int\<close> local that the branch prints.
\<close>

fun critical :: "command \<Rightarrow> IoModuleData \<Rightarrow> IoModuleData \<times> int" where
  "critical (Toggle_led led_idx) d =
     (d\<lparr>led_state := (led_state d)[led_idx := (led_state d ! led_idx) XOR 1]\<rparr>, int led_idx)"
| "critical (Read_button button_idx) d = (d, uint (button_state d ! button_idx))"
| "critical Read_raw d = (d, sint (an_raw d))"
| "critical Read_processed d = (d, sint (an_val d))"

text \<open>The \<open>snprintf\<close> of each branch into \<open>char output[64]\<close>.\<close>

fun response :: "command \<Rightarrow> int \<Rightarrow> string" where
  "response (Toggle_led led_idx) v =
     snprintf 64 (''Toggle LED '' @ show_int (int led_idx + 1) @ '' '' @ CRLF)"
| "response (Read_button button_idx) v =
     snprintf 64 (''Button '' @ show_int (int button_idx + 1) @ '' state: '' @ show_int v @ CRLF)"
| "response Read_raw v = snprintf 64 (''Raw sensor value: '' @ show_int v @ CRLF)"
| "response Read_processed v =
     snprintf 64 (''Processed sensor value: '' @ show_int v @ ''  Celsius'' @ CRLF)"

text \<open>
  One turn of the \<open>for\<close> loop: the record afterwards and the calls made. The buffer
  \<open>output\<close> is written in full before every \<open>uart_tx\<close>, so it is not part of the state.
\<close>

definition handle_byte :: "device \<Rightarrow> 8 word \<Rightarrow> IoModuleData \<Rightarrow> IoModuleData \<times> action list" where
  "handle_byte dev cmd d =
     (case decode cmd of
        None \<Rightarrow> (d, [])
      | Some c \<Rightarrow>
          (fst (critical c d), [MutexLock, MutexUnlock, UartTx dev (response c (snd (critical c d)))]))"

fun handle_bytes :: "device \<Rightarrow> 8 word list \<Rightarrow> IoModuleData \<Rightarrow> IoModuleData \<times> action list" where
  "handle_bytes dev [] d = (d, [])"
| "handle_bytes dev (cmd # cmds) d =
     (let (d', as) = handle_byte dev cmd d; (d'', as') = handle_bytes dev cmds d'
      in (d'', as @ as'))"

text \<open>
  The event types of the asynchronous UART interface. \<open>UART_RX_RDY buf offset len\<close>
  carries \<open>evt->data.rx\<close>; the driver hands over \<open>len\<close> bytes of \<open>buf\<close> from
  \<open>offset\<close> on, which \<open>rx_bytes\<close> reads.
\<close>

datatype uart_event =
    UART_TX_DONE
  | UART_TX_ABORTED
  | UART_RX_RDY "8 word list" nat nat
  | UART_RX_BUF_REQUEST
  | UART_RX_BUF_RELEASED
  | UART_RX_DISABLED
  | UART_RX_STOPPED

definition rx_bytes :: "8 word list \<Rightarrow> nat \<Rightarrow> nat \<Rightarrow> 8 word list" where
  "rx_bytes buf offset len = take len (drop offset buf)"

fun uart_callback :: "device \<Rightarrow> uart_event \<Rightarrow> IoModuleData \<Rightarrow> IoModuleData \<times> action list" where
  "uart_callback dev (UART_RX_RDY buf offset len) d = handle_bytes dev (rx_bytes buf offset len) d"
| "uart_callback dev UART_RX_DISABLED d =
     (d, [UartRxEnable dev Rx_buf RECEIVE_BUFF_SIZE RECEIVE_TIMEOUT])"
| "uart_callback dev _ d = (d, [])"

fun uart_callbacks :: "device \<Rightarrow> uart_event list \<Rightarrow> IoModuleData \<Rightarrow> IoModuleData \<times> action list" where
  "uart_callbacks dev [] d = (d, [])"
| "uart_callbacks dev (evt # evts) d =
     (let (d', as) = uart_callback dev evt d; (d'', as') = uart_callbacks dev evts d'
      in (d'', as @ as'))"

section \<open>The threads that hold \<open>rtdb.lock\<close>\<close>

text \<open>
  One turn of the loop of \<open>database_thread\<close>, on its local \<open>data\<close>, the queue and the
  record, with the calls it makes after \<open>k_msgq_get\<close> has returned. It blocks on an
  empty queue.
\<close>

definition database_thread ::
  "SensorData \<times> SensorData list \<times> IoModuleData
    \<Rightarrow> ((SensorData \<times> SensorData list \<times> IoModuleData) \<times> action list) option" where
  "database_thread s =
     (case s of (data, sensor_data, d) \<Rightarrow>
        (case k_msgq_get sensor_data of
           None \<Rightarrow> None
         | Some (data', sensor_data') \<Rightarrow>
             Some ((data', sensor_data', store_val data' (store_raw data' d)),
                   [MutexLock, MutexUnlock])))"

text \<open>
  One turn of the loop of \<open>led_thread\<close>. \<open>led_check\<close> is the body of its \<open>for\<close>
  loop at index \<open>i\<close>, on the shadow array \<open>current_led_states\<close> and the calls made so
  far; the loop runs between \<open>k_mutex_lock\<close> and \<open>k_mutex_unlock\<close>.
\<close>

definition led_check ::
  "IoModuleData \<Rightarrow> nat \<Rightarrow> 8 word list \<times> action list \<Rightarrow> 8 word list \<times> action list" where
  "led_check d i s =
     (case s of (current_led_states, as) \<Rightarrow>
        if led_state d ! i \<noteq> current_led_states ! i
        then (current_led_states[i := led_state d ! i], as @ [GpioPinSet (Led i) (led_state d ! i)])
        else (current_led_states, as))"


text \<open>
  One turn of the loop of \<open>button_thread\<close>. \<open>pins ! i\<close> is what the call
  \<open>gpio_pin_get_dt\<close> on button \<open>i + 1\<close> returns; the \<open>bool current_state\<close> is true when
  that is not zero, and it is compared and stored as 0 or 1.
\<close>

definition button_check :: "int list \<Rightarrow> nat \<Rightarrow> IoModuleData \<Rightarrow> IoModuleData" where
  "button_check pins i d =
     (let current_state = (if pins ! i \<noteq> 0 then 1 else 0)
      in if current_state \<noteq> button_state d ! i
         then d\<lparr>button_state := (button_state d)[i := current_state]\<rparr>
         else d)"

definition button_thread :: "int list \<Rightarrow> IoModuleData \<Rightarrow> IoModuleData \<times> action list" where
  "button_thread pins d =
     (button_check pins 3 (button_check pins 2 (button_check pins 1 (button_check pins 0 d))),
      [MutexLock, GpioPinGet (Button 0), GpioPinGet (Button 1), GpioPinGet (Button 2),
       GpioPinGet (Button 3), MutexUnlock, Msleep 100])"

text \<open>
  One turn of the loop of \<open>sensor_reading_thread\<close>: \<open>ret\<close> is what \<open>read_adc\<close> returns
  and \<open>sample\<close> is \<open>adc_sample_buffer[0]\<close>, read as an \<open>int16_t\<close>.
\<close>

definition sensor_reading_thread :: "int \<Rightarrow> 16 word \<Rightarrow> 16 word list \<Rightarrow> 16 word list option" where
  "sensor_reading_thread ret sample adc_raw =
     (if ret = 0 then k_msgq_put adc_raw sample else Some adc_raw)"

section \<open>Start-up: \<open>main\<close>\<close>

text \<open>
  \<open>boot\<close> holds what the collaborators answer during start-up. \<open>main\<close> gives the
  value it returns and the calls it makes; falling off its end returns 0.
\<close>

record boot =
  uart_ready :: bool
  adc_ready :: bool
  callback_set_ret :: int
  tx_ret :: int
  rx_enable_ret :: int

definition configure_buttons_and_leds :: "action list" where
  "configure_buttons_and_leds =
     [GpioPinConfigure (Button 0), GpioPinConfigure (Button 1), GpioPinConfigure (Button 2),
      GpioPinConfigure (Button 3), GpioPinConfigure (Led 0), GpioPinConfigure (Led 1),
      GpioPinConfigure (Led 2), GpioPinConfigure (Led 3)]"

definition tx_buf :: string where
  "tx_buf = ''xxxxxxxxxxxxxx Welcome xxxxxxxxxxxxxx'' @ [CHR 0x0A, CHR 0x0D, CHR 0x00]"

definition main :: "boot \<Rightarrow> int \<times> action list" where
  "main b =
     (let as1 = configure_buttons_and_leds @ [MutexInit, DeviceIsReady Uart0] in
      if \<not> uart_ready b then (1, as1 @ [Printk (''UART device not ready'' @ [CHR 0x0A])])
      else let as2 = as1 @ [DeviceIsReady Saadc] in
      if \<not> adc_ready b then (1, as2 @ [Printk (''ADC device not ready'' @ [CHR 0x0A])])
      else let as3 = as2 @ [UartCallbackSet Uart0] in
      if callback_set_ret b \<noteq> 0
      then (1, as3 @ [Printk (''Failed to set UART callback'' @ [CHR 0x0A])])
      else let as4 = as3 @ [UartTx Uart0 tx_buf] in
      if tx_ret b \<noteq> 0 then (1, as4 @ [Printk (''UART transmission failed'' @ [CHR 0x0A])])
      else let as5 = as4 @ [UartRxEnable Uart0 Rx_buf RECEIVE_BUFF_SIZE RECEIVE_TIMEOUT] in
      if rx_enable_ret b \<noteq> 0 then (1, as5)
      else (0, as5 @ [ThreadCreate T_uart 6, ThreadCreate T_sensor 7, ThreadCreate T_process 6,
                      ThreadCreate T_database 5, Msleep SLEEP_TIME_MS]))"

text \<open>
  Modelled from the spec: the receive state machine of the serial driver, which is not
  part of the source. It has the two states Armed and Disabled; an accepted
  \<open>arm_receive\<close> request makes it Armed, and the driver reports the closing of the
  receive window by the event "receive disabled".
\<close>

datatype rx_state = Armed | Disabled

fun rx_after :: "rx_state \<Rightarrow> action \<Rightarrow> rx_state" where
  "rx_after st (UartRxEnable dev buf len timeout) = Armed"
| "rx_after st a = st"

fun rx_on_event :: "rx_state \<Rightarrow> uart_event \<Rightarrow> rx_state" where
  "rx_on_event st UART_RX_DISABLED = Disabled"
| "rx_on_event st evt = st"

fun is_rx_enable :: "action \<Rightarrow> bool" where
  "is_rx_enable (UartRxEnable dev buf len timeout) = True"
| "is_rx_enable a = False"

section \<open>The threads running together\<close>

text \<open>
  The threads interleave at the calls into the kernel. Each thread has a program
  counter that names the call or the block of plain statements it executes next and
  holds its live locals. \<open>rtdb_lock\<close> is the owner of \<open>rtdb.lock\<close>, if any.

  The last three fields are history variables, which no statement of the program reads:
  \<open>db_turn\<close> counts the readings that \<open>database_thread\<close> has taken from its queue, and
  \<open>raw_turn\<close> and \<open>val_turn\<close> give the turn of \<open>database_thread\<close> that stored the
  present \<open>an_raw\<close> and \<open>an_val\<close> (0 for the zeroes of start-up).
\<close>

datatype uart_pc =
    U_idle
  | U_fetch "8 word list"
  | U_lock command "8 word list"
  | U_crit command "8 word list"
  | U_unlock command int "8 word list"
  | U_tx string "8 word list"

datatype led_pc = L_lock | L_crit | L_unlock | L_sleep

datatype button_pc = B_lock | B_crit | B_unlock | B_sleep

datatype sensor_pc = S_read | S_put "16 word" | S_sleep

datatype process_pc = P_get | P_put SensorData

datatype database_pc = D_get | D_lock | D_store_raw | D_store_val | D_unlock

record system =
  rtdb_data :: IoModuleData
  rtdb_lock :: "thread option"
  msgq_adc_raw :: "16 word list"
  msgq_sensor_data :: "SensorData list"
  uart_pc :: uart_pc
  led_pc :: led_pc
  current_led_states :: "8 word list"
  button_pc :: button_pc
  sensor_pc :: sensor_pc
  process_pc :: process_pc
  database_pc :: database_pc
  database_data :: SensorData
  db_turn :: nat
  raw_turn :: nat
  val_turn :: nat

text \<open>
  The system when the threads start; \<open>data0\<close> is the content of the uninitialised
  local \<open>data\<close> of \<open>database_thread\<close>.
\<close>

definition system_init :: "SensorData \<Rightarrow> system" where
  "system_init data0 =
     \<lparr>rtdb_data = rtdb_init, rtdb_lock = None, msgq_adc_raw = [], msgq_sensor_data = [],
      uart_pc = U_idle, led_pc = L_lock, current_led_states = [0, 0, 0, 0],
      button_pc = B_lock, sensor_pc = S_read, process_pc = P_get,
      database_pc = D_get, database_data = data0,
      db_turn = 0, raw_turn = 0, val_turn = 0\<rparr>"

text \<open>\<open>k_mutex_lock (&rtdb.lock, K_FOREVER)\<close> by thread \<open>t\<close>: it blocks while the lock is owned.\<close>

definition k_mutex_lock :: "thread \<Rightarrow> system \<Rightarrow> system option" where
  "k_mutex_lock t s = (if rtdb_lock s = None then Some (s\<lparr>rtdb_lock := Some t\<rparr>) else None)"

definition k_mutex_unlock :: "system \<Rightarrow> system" where
  "k_mutex_unlock s = s\<lparr>rtdb_lock := None\<rparr>"

text \<open>
  The driver calls \<open>uart_callback\<close> with an event when no earlier call is running.
  Only \<open>UART_RX_RDY\<close> leads to accesses of the record. (The thread that \<open>main\<close>
  creates on \<open>uart_callback\<close> passes null pointers for the device and the event; the
  activity \<open>T_uart\<close> stands for the calls that carry an event.)
\<close>

fun uart_deliver :: "uart_event \<Rightarrow> system \<Rightarrow> system option" where
  "uart_deliver evt s =
     (if uart_pc s \<noteq> U_idle then None
      else (case evt of
              UART_RX_RDY buf offset len \<Rightarrow> Some (s\<lparr>uart_pc := U_fetch (rx_bytes buf offset len)\<rparr>)
            | _ \<Rightarrow> Some s))"

definition uart_step :: "system \<Rightarrow> system option" where
  "uart_step s =
     (case uart_pc s of
        U_idle \<Rightarrow> None
      | U_fetch [] \<Rightarrow> Some (s\<lparr>uart_pc := U_idle\<rparr>)
      | U_fetch (cmd # cmds) \<Rightarrow>
          (case decode cmd of
             None \<Rightarrow> Some (s\<lparr>uart_pc := U_fetch cmds\<rparr>)
           | Some c \<Rightarrow> Some (s\<lparr>uart_pc := U_lock c cmds\<rparr>))
      | U_lock c cmds \<Rightarrow>
          (case k_mutex_lock T_uart s of
             None \<Rightarrow> None
           | Some s' \<Rightarrow> Some (s'\<lparr>uart_pc := U_crit c cmds\<rparr>))
      | U_crit c cmds \<Rightarrow>
          Some (s\<lparr>rtdb_data := fst (critical c (rtdb_data s)),
                  uart_pc := U_unlock c (snd (critical c (rtdb_data s))) cmds\<rparr>)
      | U_unlock c v cmds \<Rightarrow> Some ((k_mutex_unlock s)\<lparr>uart_pc := U_tx (response c v) cmds\<rparr>)
      | U_tx out cmds \<Rightarrow> Some (s\<lparr>uart_pc := U_fetch cmds\<rparr>))"

definition led_step :: "system \<Rightarrow> system option" where
  "led_step s =
     (case led_pc s of
        L_lock \<Rightarrow>
          (case k_mutex_lock T_led s of
             None \<Rightarrow> None
           | Some s' \<Rightarrow> Some (s'\<lparr>led_pc := L_crit\<rparr>))
      | L_crit \<Rightarrow>
          Some (s\<lparr>current_led_states :=
                    fst (fold (led_check (rtdb_data s)) [0, 1, 2, 3] (current_led_states s, [])),
                  led_pc := L_unlock\<rparr>)
      | L_unlock \<Rightarrow> Some ((k_mutex_unlock s)\<lparr>led_pc := L_sleep\<rparr>)
      | L_sleep \<Rightarrow> Some (s\<lparr>led_pc := L_lock\<rparr>))"

definition button_step :: "int list \<Rightarrow> system \<Rightarrow> system option" where
  "button_step pins s =
     (case button_pc s of
        B_lock \<Rightarrow>
          (case k_mutex_lock T_button s of
             None \<Rightarrow> None
           | Some s' \<Rightarrow> Some (s'\<lparr>button_pc := B_crit\<rparr>))
      | B_crit \<Rightarrow> Some (s\<lparr>rtdb_data := fst (button_thread pins (rtdb_data s)), button_pc := B_unlock\<rparr>)
      | B_unlock \<Rightarrow> Some ((k_mutex_unlock s)\<lparr>button_pc := B_sleep\<rparr>)
      | B_sleep \<Rightarrow> Some (s\<lparr>button_pc := B_lock\<rparr>))"

definition sensor_step :: "int \<Rightarrow> 16 word \<Rightarrow> system \<Rightarrow> system option" where
  "sensor_step ret sample s =
     (case sensor_pc s of
        S_read \<Rightarrow> Some (s\<lparr>sensor_pc := (if ret = 0 then S_put sample else S_sleep)\<rparr>)
      | S_put raw \<Rightarrow>
          (case k_msgq_put (msgq_adc_raw s) raw of
             None \<Rightarrow> None
           | Some q \<Rightarrow> Some (s\<lparr>msgq_adc_raw := q, sensor_pc := S_sleep\<rparr>))
      | S_sleep \<Rightarrow> Some (s\<lparr>sensor_pc := S_read\<rparr>))"

definition process_step :: "system \<Rightarrow> system option" where
  "process_step s =
     (case process_pc s of
        P_get \<Rightarrow>
          (case k_msgq_get (msgq_adc_raw s) of
             None \<Rightarrow> None
           | Some (raw, q) \<Rightarrow> Some (s\<lparr>msgq_adc_raw := q, process_pc := P_put (process_sample raw)\<rparr>))
      | P_put data \<Rightarrow>
          (case k_msgq_put (msgq_sensor_data s) data of
             None \<Rightarrow> None
           | Some q \<Rightarrow> Some (s\<lparr>msgq_sensor_data := q, process_pc := P_get\<rparr>)))"

definition database_step :: "system \<Rightarrow> system option" where
  "database_step s =
     (case database_pc s of
        D_get \<Rightarrow>
          (case k_msgq_get (msgq_sensor_data s) of
             None \<Rightarrow> None
           | Some (data, q) \<Rightarrow>
               Some (s\<lparr>msgq_sensor_data := q, database_data := data, database_pc := D_lock,
                       db_turn := Suc (db_turn s)\<rparr>))
      | D_lock \<Rightarrow>
          (case k_mutex_lock T_database s of
             None \<Rightarrow> None
           | Some s' \<Rightarrow> Some (s'\<lparr>database_pc := D_store_raw\<rparr>))
      | D_store_raw \<Rightarrow>
          Some (s\<lparr>rtdb_data := store_raw (database_data s) (rtdb_data s),
                  database_pc := D_store_val, raw_turn := db_turn s\<rparr>)
      | D_store_val \<Rightarrow>
          Some (s\<lparr>rtdb_data := store_val (database_data s) (rtdb_data s),
                  database_pc := D_unlock, val_turn := db_turn s\<rparr>)
      | D_unlock \<Rightarrow> Some ((k_mutex_unlock s)\<lparr>database_pc := D_get\<rparr>))"

text \<open>
  A \<open>move\<close> is the scheduler's choice of the thread that runs next, with what the
  environment answers to that thread; \<open>None\<close> means that the chosen thread cannot run.
  \<open>run\<close> follows a list of moves.
\<close>

datatype move =
    Deliver uart_event
  | Run_uart
  | Run_led
  | Run_button "int list"
  | Run_sensor int "16 word"
  | Run_process
  | Run_database

fun step :: "move \<Rightarrow> system \<Rightarrow> system option" where
  "step (Deliver evt) s = uart_deliver evt s"
| "step Run_uart s = uart_step s"
| "step Run_led s = led_step s"
| "step (Run_button pins) s = button_step pins s"
| "step (Run_sensor ret sample) s = sensor_step ret sample s"
| "step Run_process s = process_step s"
| "step Run_database s = database_step s"

fun run :: "move list \<Rightarrow> system \<Rightarrow> system option" where
  "run [] s = Some s"
| "run (m # ms) s = (case step m s of None \<Rightarrow> None | Some s' \<Rightarrow> run ms s')"

text \<open>
  \<open>received evt\<close> is the list of command bytes that an event hands to the dispatcher, and
  \<open>toggle_byte k\<close> is the command byte \<open>'1' + k\<close> that toggles \<open>led_state[k]\<close>.
\<close>

fun received :: "uart_event \<Rightarrow> 8 word list" where
  "received (UART_RX_RDY buf offset len) = rx_bytes buf offset len"
| "received evt = []"

definition toggle_byte :: "nat \<Rightarrow> 8 word" where
  "toggle_byte k = 0x31 + of_nat k"

section \<open>Invariants of the interleaving\<close>

text \<open>
  \<open>in_cs s t\<close>: the program counter of thread \<open>t\<close> is between its \<open>k_mutex_lock\<close> and
  its \<open>k_mutex_unlock\<close>. \<open>lock_inv\<close> ties the owner of the lock to the program
  counters; \<open>turn_inv\<close> places the two history variables along the turn of
  \<open>database_thread\<close>.
\<close>

fun in_cs :: "system \<Rightarrow> thread \<Rightarrow> bool" where
  "in_cs s T_uart =
     (case uart_pc s of U_crit c cmds \<Rightarrow> True | U_unlock c v cmds \<Rightarrow> True | _ \<Rightarrow> False)"
| "in_cs s T_led = (led_pc s = L_crit \<or> led_pc s = L_unlock)"
| "in_cs s T_button = (button_pc s = B_crit \<or> button_pc s = B_unlock)"
| "in_cs s T_database =
     (database_pc s = D_store_raw \<or> database_pc s = D_store_val \<or> database_pc s = D_unlock)"
| "in_cs s T_sensor = False"
| "in_cs s T_process = False"





section \<open>The transformation of a sample\<close>

text \<open>The binary32 operations on the sample 512, one rounding at a time.\<close>

lemma int_to_float_512: "int_to_float 512 = 512"
  by code_simp

lemma f32_quotient_512: "f32 (512 / 1023) = 1049601 / 2097152"
  by code_simp

lemma f32_product_512: "f32 (1049601 / 2097152 * 3) = 3148803 / 2097152"
  by code_simp

lemma f32_difference_512: "f32 (3148803 / 2097152 - 1) = 1051651 / 2097152"
  by code_simp

lemma f32_scaled_512: "f32 (60000 * (1051651 / 2097152)) = 3851261 / 128"
  by code_simp

lemma voltage_512: "voltage 512 = 3148803 / 2097152"
  by code_simp

text \<open>
  Without any rounding the scaled value of the sample 512 is \<open>30780000 / 1023\<close>, which
  lies well inside the interval from 30087 to 30088, as does the rounded \<open>3851261 / 128\<close>.
\<close>

lemma scaled_512_exact:
  "60000 * (512 / 1023 * 3 - 1) = (30780000 / 1023 :: rat)
   \<and> trunc_zero (60000 * (512 / 1023 * 3 - 1)) = 30087
   \<and> trunc_zero (3851261 / 128) = 30087"
  by code_simp

lemma process_sample_512: "process_sample 512 = \<lparr>raw_value = 512, temperature = 30087\<rparr>"
  by code_simp

text \<open>
  The derived value of the sample 512 is 30087, three orders of magnitude away from 30.
\<close>

theorem derived_512_counterexample:
  "temperature (process_sample 512) = 30087 \<and> \<not> \<bar>temperature (process_sample 512) - 30\<bar> \<le> 1"
  by (simp add: process_sample_512)

text \<open>
  C1, as amended: for the raw sample 512 the transformation computes the voltage
  \<open>3148803 / 2097152\<close> (between 1.5014 and 1.5015) and the derived value 30087, which
  is \<open>60000 * (voltage - 1)\<close> truncated to an integer: the factor is 60000 and the
  offset 1. The reading is queued with that value and \<open>database_thread\<close> stores 30087
  in \<open>an_val\<close>.
\<close>

theorem derived_512:
  "voltage 512 = 3148803 / 2097152
   \<and> 15014 / 10000 < voltage 512 \<and> voltage 512 < 15015 / 10000
   \<and> process_sample 512 = \<lparr>raw_value = 512, temperature = 30087\<rparr>
   \<and> temperature (process_sample 512) = of_int (trunc_zero (60000 * (voltage 512 - 1)))
   \<and> data_processing_thread (data, 512 # rest, []) =
       Some (process_sample 512, rest, [process_sample 512])
   \<and> sint (an_val (store_val (process_sample 512) d)) = 30087"
proof -
  have v: "voltage 512 = 3148803 / 2097152"
    by (rule voltage_512)
  have bounds: "15014 / 10000 < voltage 512 \<and> voltage 512 < 15015 / 10000"
    unfolding v by simp
  have p: "process_sample 512 = \<lparr>raw_value = 512, temperature = 30087\<rparr>"
    by (rule process_sample_512)
  have "trunc_zero (60000 * (3148803 / 2097152 - 1)) = 30087"
    by code_simp
  then have t: "temperature (process_sample 512) = of_int (trunc_zero (60000 * (voltage 512 - 1)))"
    unfolding v p by simp
  have q: "data_processing_thread (data, 512 # rest, []) =
       Some (process_sample 512, rest, [process_sample 512])"
    by (simp add: data_processing_thread_def k_msgq_get_def k_msgq_put_def msgq_capacity_def)
  have "sint (float_to_int 30087) = 30087"
    by code_simp
  then have s: "sint (an_val (store_val (process_sample 512) d)) = 30087"
    unfolding p by (simp add: store_val_def)
  from v bounds p t q s show ?thesis by blast
qed

text \<open>
  C7: the reading that \<open>data_processing_thread\<close> queues depends on the raw sample only.
  Two turns that take the same sample, whatever the local \<open>data\<close>, the rest of the input
  queue and the content of the output queue, return and queue the same reading, which
  is \<open>process_sample raw\<close>.
\<close>

theorem transformation_deterministic:
  assumes "length q1 < msgq_capacity" "length q2 < msgq_capacity"
  shows "data_processing_thread (data1, raw # rest1, q1)
           = Some (process_sample raw, rest1, q1 @ [process_sample raw])
       \<and> data_processing_thread (data2, raw # rest2, q2)
           = Some (process_sample raw, rest2, q2 @ [process_sample raw])"
  using assms by (simp add: data_processing_thread_def k_msgq_get_def k_msgq_put_def)

theorem transformation_deterministic_witness:
  "data_processing_thread (\<lparr>raw_value = 0, temperature = 0\<rparr>, [512, 7], [])
     = Some (process_sample 512, [7], [process_sample 512])
   \<and> data_processing_thread (\<lparr>raw_value = 9, temperature = 1\<rparr>, [512],
         [\<lparr>raw_value = 3, temperature = 4\<rparr>])
     = Some (process_sample 512, [], [\<lparr>raw_value = 3, temperature = 4\<rparr>, process_sample 512])"
  using transformation_deterministic [of "[]" "[\<lparr>raw_value = 3, temperature = 4\<rparr>]"
      "\<lparr>raw_value = 0, temperature = 0\<rparr>" 512 "[7]" "\<lparr>raw_value = 9, temperature = 1\<rparr>" "[]"]
  by (simp add: msgq_capacity_def)

section \<open>The command dispatcher\<close>

lemma rx_bytes_single: "rx_bytes [c] 0 1 = [c]"
  by (simp add: rx_bytes_def)

lemma handle_bytes_single: "handle_bytes dev [c] d = handle_byte dev c d"
  by (simp add: split_def)

lemma fst_handle_bytes_Cons:
  "fst (handle_bytes dev (c # cs) d) = fst (handle_bytes dev cs (fst (handle_byte dev c d)))"
  by (simp add: split_def Let_def)

lemma fst_uart_callbacks_Cons:
  "fst (uart_callbacks dev (evt # evts) d)
     = fst (uart_callbacks dev evts (fst (uart_callback dev evt d)))"
  by (simp add: split_def Let_def)

lemma decode_unrecognised: "cmd < 0x30 \<or> 0x39 < cmd \<Longrightarrow> decode cmd = None"
  by (auto simp: decode_def word_le_nat_alt word_less_nat_alt)

lemma handle_byte_unrecognised:
  "cmd < 0x30 \<or> 0x39 < cmd \<Longrightarrow> handle_byte dev cmd d = (d, [])"
  by (simp add: handle_byte_def decode_unrecognised)

lemma handle_bytes_unrecognised:
  "\<forall>c \<in> set cmds. c < 0x30 \<or> 0x39 < c \<Longrightarrow> handle_bytes dev cmds d = (d, [])"
  by (induction cmds) (simp_all add: handle_byte_unrecognised)

text \<open>
  C6: when every byte of a received batch lies outside \<open>'0'..'9'\<close> (\<open>0x30..0x39\<close>),
  the dispatcher makes no call at all, so it transmits nothing, and the record is
  unchanged.
\<close>

theorem unrecognised_ignored:
  assumes "\<forall>c \<in> set (rx_bytes buf offset len). c < 0x30 \<or> 0x39 < c"
  shows "uart_callback dev (UART_RX_RDY buf offset len) d = (d, [])"
  using assms by (simp add: handle_bytes_unrecognised)

theorem unrecognised_ignored_witness:
  "uart_callback Uart0 (UART_RX_RDY [0x78] 0 1) rtdb_init = (rtdb_init, [])"
  using unrecognised_ignored [of "[0x78]" 0 1 Uart0 rtdb_init]
  by (simp add: rx_bytes_def)

subsection \<open>Length of the formatted numbers\<close>

lemma digits_length: "0 < k \<Longrightarrow> n < 10 ^ k \<Longrightarrow> length (digits n) \<le> k"
proof (induction k arbitrary: n)
  case 0
  then show ?case by simp
next
  case (Suc k)
  show ?case
  proof (cases "n < 10")
    case True
    then show ?thesis by (simp add: digits.simps [of n])
  next
    case False
    then have k: "0 < k" using Suc.prems by (cases k) auto
    have "n div 10 < 10 ^ k" using Suc.prems(2) by simp
    from Suc.IH [OF k this] False show ?thesis
      by (simp add: digits.simps [of n])
  qed
qed

lemma show_int_length:
  "- (10 ^ k) < i \<Longrightarrow> i < 10 ^ k \<Longrightarrow> 0 < k \<Longrightarrow> length (show_int i) \<le> Suc k"
  using digits_length [of k i] digits_length [of k "- i"]
  by (auto simp: show_int_def)

lemma show_int_sint32: "length (show_int (sint (w :: 32 word))) \<le> 11"
proof -
  have "- (2 ^ 31) \<le> sint w" "sint w < 2 ^ 31"
    using sint_ge [of w] sint_lt [of w] by simp_all
  then have "- (10 ^ 10) < sint w" "sint w < 10 ^ 10" by simp_all
  from show_int_length [OF this] show ?thesis by simp
qed

lemma response_processed:
  "response Read_processed (sint (w :: 32 word)) =
     ''Processed sensor value: '' @ show_int (sint w) @ ''  Celsius'' @ CRLF"
  using show_int_sint32 [of w] by (simp add: snprintf_def CRLF_def)

text \<open>
  With \<open>an_val = 0\<close> the answer to \<open>'0'\<close> is not the bare line: a unit follows the number.
\<close>

theorem processed_response_counterexample:
  "snd (uart_callback Uart0 (UART_RX_RDY [0x30] 0 1) rtdb_init)
     = [MutexLock, MutexUnlock, UartTx Uart0 (''Processed sensor value: 0  Celsius'' @ CRLF)]
   \<and> snd (uart_callback Uart0 (UART_RX_RDY [0x30] 0 1) rtdb_init)
     \<noteq> [MutexLock, MutexUnlock, UartTx Uart0 (''Processed sensor value: 0'' @ CRLF)]"
  by code_simp

text \<open>
  C3, as amended: on the byte \<open>'0'\<close> the dispatcher takes the lock, reads \<open>an_val\<close>,
  releases the lock and transmits one line: the text "Processed sensor value: ", the
  value in decimal, two spaces and the word "Celsius", then carriage return and line
  feed. The record is unchanged.
\<close>

theorem processed_response:
  "uart_callback dev (UART_RX_RDY [0x30] 0 1) d =
     (d, [MutexLock, MutexUnlock,
          UartTx dev (''Processed sensor value: '' @ show_int (sint (an_val d)) @ ''  Celsius'' @ CRLF)])"
  by (simp only: uart_callback.simps rx_bytes_single handle_bytes_single)
     (simp add: handle_byte_def decode_def response_processed del: response.simps)

text \<open>
  C8: once \<open>database_thread\<close> has taken a reading with \<open>raw_value = 700\<close> from its queue
  and stored it, the byte \<open>'9'\<close> makes the dispatcher lock, read \<open>an_raw\<close>, unlock and
  transmit the line "Raw sensor value: 700", ended by carriage return and line feed.
\<close>

theorem raw_700_response:
  "\<exists>data' q' d'. database_thread (data, \<lparr>raw_value = 700, temperature = t\<rparr> # q, d)
         = Some ((data', q', d'), [MutexLock, MutexUnlock])
     \<and> an_raw d' = 700
     \<and> uart_callback dev (UART_RX_RDY [0x39] 0 1) d' =
         (d', [MutexLock, MutexUnlock, UartTx dev (''Raw sensor value: 700'' @ CRLF)])"
proof -
  have "show_int 700 = ''700''" by code_simp
  then have "response Read_raw 700 = ''Raw sensor value: 700'' @ CRLF"
    by (simp add: snprintf_def CRLF_def)
  then show ?thesis
    by (simp add: database_thread_def k_msgq_get_def store_raw_def store_val_def
        rx_bytes_def handle_byte_def decode_def split_def del: response.simps)
qed

subsection \<open>Toggling\<close>

lemma toggle_range:
  fixes c :: "8 word"
  assumes "0x31 \<le> c" "c \<le> 0x34"
  shows "c = 0x31 \<or> c = 0x32 \<or> c = 0x33 \<or> c = 0x34"
proof -
  have "49 \<le> unat c" "unat c \<le> 52"
    using assms by (simp_all add: word_le_nat_alt)
  then have "unat c = 49 \<or> unat c = 50 \<or> unat c = 51 \<or> unat c = 52" by arith
  then show ?thesis by (auto simp: word_unat_eq_iff)
qed

lemma lt4: "k < (4::nat) \<Longrightarrow> k = 0 \<or> k = 1 \<or> k = 2 \<or> k = 3"
  by arith

lemma decode_toggle_byte:
  assumes "k < 4"
  shows "decode (toggle_byte k) = Some (Toggle_led k)"
  using lt4 [OF assms]
  unfolding toggle_byte_def by (elim disjE) (simp_all add: decode_def)

lemma decode_Toggle_led:
  assumes "decode c = Some (Toggle_led j)"
  shows "j < 4 \<and> c = toggle_byte j"
proof -
  from assms have r: "0x31 \<le> c" "c \<le> 0x34" and j: "j = unat c - 0x31"
    by (auto simp: decode_def split: if_splits)
  from toggle_range [OF r] show ?thesis
    unfolding j toggle_byte_def by (elim disjE) simp_all
qed

lemma toggle_byte_inj:
  assumes "j < 4" "k < 4"
  shows "toggle_byte j = toggle_byte k \<longleftrightarrow> j = k"
  using lt4 [OF assms(1)] lt4 [OF assms(2)]
  unfolding toggle_byte_def by (elim disjE) simp_all

lemma handle_byte_wf: "wf_data d \<Longrightarrow> wf_data (fst (handle_byte dev c d))"
  by (cases "decode c"; cases "the (decode c)") (auto simp: handle_byte_def wf_data_def)

lemma handle_byte_led:
  assumes "wf_data d" "k < 4"
  shows "led_state (fst (handle_byte dev c d)) ! k =
           (if c = toggle_byte k then led_state d ! k XOR 1 else led_state d ! k)"
proof (cases "decode c")
  case None
  with decode_toggle_byte [OF assms(2)] show ?thesis
    by (auto simp: handle_byte_def)
next
  case (Some cmd)
  show ?thesis
  proof (cases cmd)
    case (Toggle_led j)
    with Some decode_Toggle_led [of c j] have j: "j < 4" "c = toggle_byte j" by simp_all
    with Some Toggle_led assms toggle_byte_inj [of j k] show ?thesis
      by (auto simp: handle_byte_def wf_data_def)
  qed (use Some decode_toggle_byte [OF assms(2)] in \<open>auto simp: handle_byte_def\<close>)
qed

lemma handle_bytes_wf: "wf_data d \<Longrightarrow> wf_data (fst (handle_bytes dev cs d))"
  by (induction cs arbitrary: d)
     (simp_all add: fst_handle_bytes_Cons handle_byte_wf del: handle_bytes.simps(2))

lemma toggle_funpow_swap:
  "((\<lambda>v. v XOR 1) ^^ n) (x XOR 1) = ((\<lambda>v. v XOR 1) ^^ n) x XOR (1 :: 8 word)"
  using funpow_swap1 [of "\<lambda>v. v XOR 1" n x] by simp

lemma toggle_funpow:
  "((\<lambda>v. v XOR 1) ^^ n) (x :: 8 word) = (if even n then x else x XOR 1)"
  by (induction n) (simp_all add: xor.assoc)

lemma handle_bytes_led:
  "wf_data d \<Longrightarrow> k < 4 \<Longrightarrow>
   led_state (fst (handle_bytes dev cs d)) ! k =
     ((\<lambda>v. v XOR 1) ^^ count_list cs (toggle_byte k)) (led_state d ! k)"
proof (induction cs arbitrary: d)
  case Nil
  then show ?case by simp
next
  case (Cons c cs)
  from Cons.prems have wf: "wf_data (fst (handle_byte dev c d))"
    by (simp add: handle_byte_wf)
  from Cons.IH [OF wf Cons.prems(2)] handle_byte_led [OF Cons.prems, of dev c]
  show ?case
    by (simp add: fst_handle_bytes_Cons toggle_funpow_swap del: handle_bytes.simps(2))
qed

lemma uart_callback_received:
  "fst (uart_callback dev evt d) = fst (handle_bytes dev (received evt) d)"
  by (cases evt) simp_all

lemma handle_bytes_append:
  "fst (handle_bytes dev (as @ bs) d) = fst (handle_bytes dev bs (fst (handle_bytes dev as d)))"
  by (induction as arbitrary: d)
     (simp_all add: fst_handle_bytes_Cons del: handle_bytes.simps(2))

lemma uart_callbacks_received:
  "fst (uart_callbacks dev evts d) = fst (handle_bytes dev (concat (map received evts)) d)"
  by (induction evts arbitrary: d)
     (simp_all add: fst_uart_callbacks_Cons handle_bytes_append uart_callback_received
        del: uart_callbacks.simps(2))

text \<open>
  C4: let the dispatcher handle any sequence of events, and let \<open>N\<close> be the number of
  bytes \<open>'1' + k\<close> among the bytes received, for an LED index \<open>k < 4\<close>. Then
  \<open>led_state[k]\<close> ends as its initial value XORed with 1, \<open>N\<close> times: the initial value
  when \<open>N\<close> is even, the opposite one when \<open>N\<close> is odd.
\<close>

theorem toggle_parity:
  assumes "wf_data d" "k < 4"
  shows "led_state (fst (uart_callbacks dev evts d)) ! k =
           ((\<lambda>v. v XOR 1) ^^ count_list (concat (map received evts)) (toggle_byte k))
             (led_state d ! k)
       \<and> led_state (fst (uart_callbacks dev evts d)) ! k =
           (if even (count_list (concat (map received evts)) (toggle_byte k))
            then led_state d ! k else led_state d ! k XOR 1)"
  using handle_bytes_led [OF assms] by (simp add: uart_callbacks_received toggle_funpow)

theorem toggle_parity_witness:
  "led_state (fst (uart_callbacks Uart0
       [UART_RX_RDY [0x31, 0x32, 0x31] 0 3, UART_RX_DISABLED, UART_RX_RDY [0x31] 0 1]
       rtdb_init)) ! 0 = 1"
  using toggle_parity [of rtdb_init 0 Uart0
      "[UART_RX_RDY [0x31, 0x32, 0x31] 0 3, UART_RX_DISABLED, UART_RX_RDY [0x31] 0 1]"]
  by (simp add: wf_data_def rtdb_init_def rx_bytes_def toggle_byte_def)

text \<open>
  C10: a command byte in \<open>'1'..'4'\<close> changes the record in one place only, the element
  \<open>byte - '1'\<close> of \<open>led_state\<close>, which is XORed with 1. The other elements of
  \<open>led_state\<close>, the whole of \<open>button_state\<close>, \<open>an_raw\<close> and \<open>an_val\<close> are as before.
\<close>

theorem toggle_frame:
  assumes "0x31 \<le> cmd" "cmd \<le> 0x34"
  shows "fst (uart_callback dev (UART_RX_RDY [cmd] 0 1) d) =
           d\<lparr>led_state := (led_state d)[unat cmd - 0x31 := led_state d ! (unat cmd - 0x31) XOR 1]\<rparr>
       \<and> (\<forall>j. j \<noteq> unat cmd - 0x31 \<longrightarrow>
            led_state (fst (uart_callback dev (UART_RX_RDY [cmd] 0 1) d)) ! j = led_state d ! j)
       \<and> length (led_state (fst (uart_callback dev (UART_RX_RDY [cmd] 0 1) d))) = length (led_state d)
       \<and> button_state (fst (uart_callback dev (UART_RX_RDY [cmd] 0 1) d)) = button_state d
       \<and> an_raw (fst (uart_callback dev (UART_RX_RDY [cmd] 0 1) d)) = an_raw d
       \<and> an_val (fst (uart_callback dev (UART_RX_RDY [cmd] 0 1) d)) = an_val d"
proof -
  from assms have "decode cmd = Some (Toggle_led (unat cmd - 0x31))"
    by (simp add: decode_def)
  then have "fst (uart_callback dev (UART_RX_RDY [cmd] 0 1) d) =
      d\<lparr>led_state := (led_state d)[unat cmd - 0x31 := led_state d ! (unat cmd - 0x31) XOR 1]\<rparr>"
    by (simp add: rx_bytes_def handle_byte_def split_def)
  then show ?thesis by simp
qed

theorem toggle_frame_witness:
  "fst (uart_callback Uart0 (UART_RX_RDY [0x32] 0 1) rtdb_init) =
     \<lparr>led_state = [0, 1, 0, 0], button_state = [0, 0, 0, 0], an_raw = 0, an_val = 0\<rparr>"
  using toggle_frame [of "0x32" Uart0 rtdb_init]
  by (simp add: rtdb_init_def)

section \<open>Hardware calls and the lock\<close>









section \<open>Re-arming the receiver\<close>

lemma main_rx_enable:
  assumes "uart_ready b" "adc_ready b" "callback_set_ret b = 0" "tx_ret b = 0"
  shows "filter is_rx_enable (snd (main b))
           = [UartRxEnable Uart0 Rx_buf RECEIVE_BUFF_SIZE RECEIVE_TIMEOUT]"
  using assms by (simp add: main_def configure_buttons_and_leds_def Let_def)

text \<open>
  C9: on the event "receive disabled" the dispatcher makes exactly one call, the request
  to arm the receiver on the device of the event, with the buffer \<open>rx_buf\<close>, its size
  and the timeout \<open>RECEIVE_TIMEOUT\<close>; the record is untouched. This is the request that
  \<open>main\<close> makes when start-up gets that far, so buffer and timeout are those of the
  original arming, and the receive state machine is Armed afterwards.
\<close>

theorem rearm_on_disabled:
  "uart_callback dev UART_RX_DISABLED d
     = (d, [UartRxEnable dev Rx_buf RECEIVE_BUFF_SIZE RECEIVE_TIMEOUT])
   \<and> foldl rx_after (rx_on_event st UART_RX_DISABLED) (snd (uart_callback dev UART_RX_DISABLED d))
       = Armed
   \<and> (uart_ready b \<and> adc_ready b \<and> callback_set_ret b = 0 \<and> tx_ret b = 0 \<longrightarrow>
        filter is_rx_enable (snd (main b)) = snd (uart_callback Uart0 UART_RX_DISABLED d))
   \<and> RECEIVE_BUFF_SIZE = 10 \<and> RECEIVE_TIMEOUT = 100"
  using main_rx_enable [of b] by (simp add: RECEIVE_BUFF_SIZE_def RECEIVE_TIMEOUT_def)

theorem rearm_on_disabled_witness:
  "filter is_rx_enable
     (snd (main \<lparr>uart_ready = True, adc_ready = True, callback_set_ret = 0, tx_ret = 0,
                 rx_enable_ret = 0\<rparr>))
     = [UartRxEnable Uart0 Rx_buf 10 100]
   \<and> uart_callback Uart0 UART_RX_DISABLED rtdb_init = (rtdb_init, [UartRxEnable Uart0 Rx_buf 10 100])
   \<and> foldl rx_after Disabled (snd (uart_callback Uart0 UART_RX_DISABLED rtdb_init)) = Armed"
  using rearm_on_disabled [of Uart0 rtdb_init Armed
      "\<lparr>uart_ready = True, adc_ready = True, callback_set_ret = 0, tx_ret = 0, rx_enable_ret = 0\<rparr>"]
  by simp

section \<open>The record under concurrent access\<close>





lemma in_cs_upd [simp]:
  "in_cs (s\<lparr>rtdb_data := d\<rparr>) t = in_cs s t"
  "in_cs (s\<lparr>rtdb_lock := l\<rparr>) t = in_cs s t"
  "in_cs (s\<lparr>msgq_adc_raw := q1\<rparr>) t = in_cs s t"
  "in_cs (s\<lparr>msgq_sensor_data := q2\<rparr>) t = in_cs s t"
  "in_cs (s\<lparr>current_led_states := cur\<rparr>) t = in_cs s t"
  "in_cs (s\<lparr>sensor_pc := spc\<rparr>) t = in_cs s t"
  "in_cs (s\<lparr>process_pc := ppc\<rparr>) t = in_cs s t"
  "in_cs (s\<lparr>database_data := dd\<rparr>) t = in_cs s t"
  "in_cs (s\<lparr>db_turn := n\<rparr>) t = in_cs s t"
  "in_cs (s\<lparr>raw_turn := n\<rparr>) t = in_cs s t"
  "in_cs (s\<lparr>val_turn := n\<rparr>) t = in_cs s t"
  by (cases t; simp)+

lemma in_cs_pc_upd [simp]:
  "t \<noteq> T_uart \<Longrightarrow> in_cs (s\<lparr>uart_pc := upc\<rparr>) t = in_cs s t"
  "t \<noteq> T_led \<Longrightarrow> in_cs (s\<lparr>led_pc := lpc\<rparr>) t = in_cs s t"
  "t \<noteq> T_button \<Longrightarrow> in_cs (s\<lparr>button_pc := bpc\<rparr>) t = in_cs s t"
  "t \<noteq> T_database \<Longrightarrow> in_cs (s\<lparr>database_pc := dpc\<rparr>) t = in_cs s t"
  by (cases t; simp)+














text \<open>The definitions that a concrete run unfolds.\<close>

lemmas step_defs =
  uart_step_def led_step_def button_step_def sensor_step_def process_step_def database_step_def
  k_mutex_lock_def k_mutex_unlock_def k_msgq_put_def k_msgq_get_def msgq_capacity_def
  system_init_def rtdb_init_def store_raw_def store_val_def rx_bytes_def decode_def


text \<open>
  The invariant is not empty: between its two stores \<open>database_thread\<close> leaves a pair
  from two different writes in the record, it owns the lock there, and a dispatcher
  that wants to read is blocked.
\<close>

lemma torn_state_is_locked:
  "\<exists>s. run [Run_sensor 0 700, Run_sensor 0 700, Run_process, Run_process, Run_database,
              Run_database, Run_database]
             (system_init \<lparr>raw_value = 0, temperature = 0\<rparr>) = Some s
       \<and> rtdb_lock s = Some T_database \<and> an_raw (rtdb_data s) = 700 \<and> an_val (rtdb_data s) = 0
       \<and> raw_turn s = 1 \<and> val_turn s = 0
       \<and> run [Deliver (UART_RX_RDY [0x39] 0 1), Run_uart, Run_uart] s = None"
  by (simp add: step_defs process_sample_def)

text \<open>
  The five steps of a turn of \<open>database_thread\<close>, run without interruption from a state
  where the lock is free, have the effect of the sequential turn on the record.
\<close>

lemma database_turn_steps:
  assumes "database_pc s = D_get" "rtdb_lock s = None" "msgq_sensor_data s = r # q"
  shows "\<exists>s'. run [Run_database, Run_database, Run_database, Run_database, Run_database] s
               = Some s'
     \<and> database_thread (database_data s, msgq_sensor_data s, rtdb_data s)
         = Some ((database_data s', msgq_sensor_data s', rtdb_data s'), [MutexLock, MutexUnlock])
     \<and> database_pc s' = D_get \<and> rtdb_lock s' = None"
  using assms
  by (simp add: database_step_def database_thread_def k_mutex_lock_def k_mutex_unlock_def
      k_msgq_get_def)

text \<open>
  Only the dispatcher writes \<open>led_state\<close>, so the toggles of the dispatcher are the only
  changes that \<open>led_state\<close> sees while the other threads run.
\<close>

lemma button_thread_led: "led_state (fst (button_thread pins d)) = led_state d"
  by (simp add: button_thread_def button_check_def Let_def)

lemma led_state_other_threads:
  assumes "step m s = Some s'" "m \<noteq> Run_uart"
  shows "led_state (rtdb_data s') = led_state (rtdb_data s)"
proof (cases m)
  case (Deliver evt)
  with assms show ?thesis by (cases evt) (auto split: if_splits)
next
  case Run_uart
  with assms show ?thesis by simp
next
  case Run_led
  with assms show ?thesis
    by (cases "led_pc s")
       (auto simp: led_step_def k_mutex_lock_def k_mutex_unlock_def split: if_splits)
next
  case (Run_button pins)
  with assms show ?thesis
    by (cases "button_pc s")
       (auto simp: button_step_def k_mutex_lock_def k_mutex_unlock_def button_thread_led
          split: if_splits)
next
  case (Run_sensor ret sample)
  with assms show ?thesis
    by (cases "sensor_pc s") (auto simp: sensor_step_def split: if_splits option.splits)
next
  case Run_process
  with assms show ?thesis
    by (cases "process_pc s") (auto simp: process_step_def split: if_splits option.splits)
next
  case Run_database
  with assms show ?thesis
    by (cases "database_pc s")
       (auto simp: database_step_def k_mutex_lock_def k_mutex_unlock_def store_raw_def
          store_val_def split: if_splits option.splits)
qed

end
